theory Spec2Isabelle
  imports Complex_Main "HOL-Library.Sublist" "HOL-Library.AList" "HOL-Library.Product_Lexorder"
    "HOL-Library.Log_Nat"
begin

section \<open>Python library functions used by the scripts\<close>

text \<open>
  Strings are lists of 8-bit characters, read as the code points 0 to 255. Exceptions are
  values: a function that may raise returns \<open>exn + 'a\<close>, with \<open>Inl\<close> for the exception.
\<close>

datatype exn = ValueError | KeyError string | IndexError | OSError | NotADirectoryError
  | FileExistsError

text \<open>
  A dictionary with integer values is the list of its items in insertion order;
  \<open>d[k] = v\<close> is \<open>AList.update k v d\<close> and an empty dictionary is \<open>[]\<close>, which is what
  \<open>if d:\<close> tests.
\<close>

type_synonym dict = "(string \<times> int) list"

subsection \<open>The regular expressions of the \<open>re\<close> module\<close>

text \<open>
  The patterns of the scripts are sequences of single characters, character classes,
  greedy \<open>+\<close> on a character class, capture groups that are not nested, and \<open>$\<close>.
  A pattern is the list of its items, in the order of the pattern string.
\<close>

datatype cls =
    Is char       \<comment> \<open>a literal character\<close>
  | IsNot char    \<comment> \<open>\<open>[^c]\<close>\<close>
  | Digit         \<comment> \<open>\<open>\d\<close>\<close>
  | Dot           \<comment> \<open>\<open>.\<close>: any character except the newline\<close>

datatype item =
    One cls       \<comment> \<open>one character of the class\<close>
  | Many1 cls     \<comment> \<open>\<open>cls+\<close>, greedy\<close>
  | GOpen         \<comment> \<open>\<open>(\<close>\<close>
  | GClose        \<comment> \<open>\<open>)\<close>\<close>
  | Eol           \<comment> \<open>\<open>$\<close>\<close>

definition is_digit :: "char \<Rightarrow> bool" where
  "is_digit c \<longleftrightarrow> c \<in> set ''0123456789''"

fun cls_ok :: "cls \<Rightarrow> char \<Rightarrow> bool" where
  "cls_ok (Is c) x = (x = c)"
| "cls_ok (IsNot c) x = (x \<noteq> c)"
| "cls_ok Digit x = is_digit x"
| "cls_ok Dot x = (x \<noteq> CHR 0x0A)"

definition lit :: "string \<Rightarrow> item list" where
  "lit s = map (\<lambda>c. One (Is c)) s"

text \<open>
  While a group is open, the characters consumed are collected in \<open>cur\<close>; the closed
  groups are in \<open>gs\<close>, in the order of their numbers.
\<close>

fun push :: "char \<Rightarrow> string option \<Rightarrow> string option" where
  "push x None = None"
| "push x (Some g) = Some (g @ [x])"

text \<open>
  \<open>match_here p s cur gs\<close> matches the pattern \<open>p\<close> at the start of \<open>s\<close>, as the
  backtracking matcher of \<open>re\<close> does: a greedy \<open>+\<close> first tries to take one more
  character and gives it back when the rest of the pattern fails. The result is the
  groups and the text left after the match. \<open>$\<close> matches at the end of the text and before
  a newline that ends the text.
\<close>

fun match_here :: "item list \<Rightarrow> string \<Rightarrow> string option \<Rightarrow> string list
    \<Rightarrow> (string list \<times> string) option" where
  "match_here [] s cur gs = Some (gs, s)"
| "match_here (GOpen # p) s cur gs = match_here p s (Some []) gs"
| "match_here (GClose # p) s cur gs =
     match_here p s None (gs @ [case cur of Some g \<Rightarrow> g | None \<Rightarrow> []])"
| "match_here (Eol # p) s cur gs =
     (if s = [] \<or> s = [CHR 0x0A] then match_here p s cur gs else None)"
| "match_here (One c # p) [] cur gs = None"
| "match_here (One c # p) (x # xs) cur gs =
     (if cls_ok c x then match_here p xs (push x cur) gs else None)"
| "match_here (Many1 c # p) [] cur gs = None"
| "match_here (Many1 c # p) (x # xs) cur gs =
     (if cls_ok c x
      then (case match_here (Many1 c # p) xs (push x cur) gs of
              Some r \<Rightarrow> Some r
            | None \<Rightarrow> match_here p xs (push x cur) gs)
      else None)"

text \<open>\<open>re.search\<close>: the match at the leftmost position that has one; its groups.\<close>

fun search :: "item list \<Rightarrow> string \<Rightarrow> string list option" where
  "search p [] = map_option fst (match_here p [] None [])"
| "search p (x # xs) =
     (case match_here p (x # xs) None [] of
        Some r \<Rightarrow> Some (fst r)
      | None \<Rightarrow> search p xs)"

text \<open>
  \<open>re.findall\<close> for a pattern with one group: the group of every match, from left to
  right, each match starting where the previous one ended. A match that consumed nothing
  moves the scan one character on.
\<close>

function findall :: "item list \<Rightarrow> string \<Rightarrow> string list" where
  "findall p [] = (case match_here p [] None [] of Some r \<Rightarrow> [concat (fst r)] | None \<Rightarrow> [])"
| "findall p (x # xs) =
     (case match_here p (x # xs) None [] of
        Some r \<Rightarrow> concat (fst r) #
          (if length (snd r) < length (x # xs) then findall p (snd r) else findall p xs)
      | None \<Rightarrow> findall p xs)"
  by pat_completeness auto
termination
  by (relation "measure (\<lambda>(p, s). length s)") auto

subsection \<open>\<open>int\<close> of a string\<close>

text \<open>
  \<open>int(s)\<close> skips white space on both sides, reads an optional sign and then decimal digits,
  where a single underscore may stand between two digits. Anything else raises
  \<open>ValueError\<close>. Of the code points up to 255, \<open>int\<close> takes 9 to 13, 32, 0x85 and 0xA0 as
  white space.
\<close>

definition int_space :: "char \<Rightarrow> bool" where
  "int_space c \<longleftrightarrow> c \<in> set [CHR 0x09, CHR 0x0A, CHR 0x0B, CHR 0x0C, CHR 0x0D, CHR 0x20,
     CHR 0x85, CHR 0xA0]"

definition digit_val :: "char \<Rightarrow> int" where
  "digit_val c = int (of_char c) - 48"

text \<open>\<open>digits acc s\<close>: the digits of \<open>s\<close> after at least one digit has been read.\<close>

fun digits :: "int \<Rightarrow> string \<Rightarrow> int option" where
  "digits acc [] = Some acc"
| "digits acc [c] =
     (if is_digit c then Some (10 * acc + digit_val c)
      else if int_space c then Some acc else None)"
| "digits acc (c # d # s) =
     (if is_digit c then digits (10 * acc + digit_val c) (d # s)
      else if c = CHR ''_'' \<and> is_digit d then digits acc (d # s)
      else if int_space c \<and> (\<forall>x \<in> set (d # s). int_space x) then Some acc
      else None)"

fun unsigned :: "string \<Rightarrow> int option" where
  "unsigned [] = None"
| "unsigned (c # s) = (if is_digit c then digits (digit_val c) s else None)"

fun signed :: "string \<Rightarrow> int option" where
  "signed [] = None"
| "signed (c # s) =
     (if c = CHR ''-'' then map_option uminus (unsigned s)
      else if c = CHR ''+'' then unsigned s
      else unsigned (c # s))"

definition py_int :: "string \<Rightarrow> exn + int" where
  "py_int s = (case signed (dropWhile int_space s) of None \<Rightarrow> Inl ValueError | Some n \<Rightarrow> Inr n)"

subsection \<open>String methods\<close>

text \<open>
  \<open>str.upper\<close> on the letters a to z. The code points above 127 are left as they are:
  their upper-case forms are letters too, so \<open>int\<close> rejects them either way, and none is
  \<open>K\<close> or \<open>M\<close>.
\<close>

definition upper_char :: "char \<Rightarrow> char" where
  "upper_char c =
     (if 97 \<le> (of_char c :: nat) \<and> (of_char c :: nat) \<le> 122
      then char_of ((of_char c :: nat) - 32) else c)"

definition upper :: "string \<Rightarrow> string" where
  "upper s = map upper_char s"

text \<open>\<open>s.replace(c, '')\<close> for a single character \<open>c\<close>.\<close>

definition remove_char :: "char \<Rightarrow> string \<Rightarrow> string" where
  "remove_char c s = filter (\<lambda>x. x \<noteq> c) s"

section \<open>The filename parser of \<open>new_analyze_results.py\<close>\<close>

definition parse_size :: "string \<Rightarrow> exn + int" where
  "parse_size size_str0 =
     (let size_str = upper size_str0 in
      if CHR ''K'' \<in> set size_str then
        (case py_int (remove_char CHR ''K'' size_str) of
           Inl e \<Rightarrow> Inl e | Inr n \<Rightarrow> Inr (n * 1000))
      else if CHR ''M'' \<in> set size_str then
        (case py_int (remove_char CHR ''M'' size_str) of
           Inl e \<Rightarrow> Inl e | Inr n \<Rightarrow> Inr (n * 1000000))
      else py_int size_str)"

text \<open>
  The pattern string of \<open>parse_filename\<close> is the raw string
  \<^verbatim>\<open>_([^_]+)_(\d+)_([^_]+)_[^_]+\\.txt$\<close>: after the fourth token it asks for a backslash
  (\<^verbatim>\<open>\\\<close>), then any character (\<^verbatim>\<open>.\<close>), then \<open>txt\<close>.
\<close>

definition backslash :: char where
  "backslash = CHR 0x5C"

definition filename_re :: "item list" where
  "filename_re =
     [One (Is CHR ''_''), GOpen, Many1 (IsNot CHR ''_''), GClose,
      One (Is CHR ''_''), GOpen, Many1 Digit, GClose,
      One (Is CHR ''_''), GOpen, Many1 (IsNot CHR ''_''), GClose,
      One (Is CHR ''_''), Many1 (IsNot CHR ''_''),
      One (Is backslash), One Dot] @ lit ''txt'' @ [Eol]"

definition parse_filename :: "string \<Rightarrow> exn + dict" where
  "parse_filename filename =
     (case search filename_re filename of
        Some g \<Rightarrow>
          (case parse_size (g ! 0) of Inl e \<Rightarrow> Inl e | Inr ds \<Rightarrow>
          (case py_int (g ! 1) of Inl e \<Rightarrow> Inl e | Inr th \<Rightarrow>
          (case parse_size (g ! 2) of Inl e \<Rightarrow> Inl e | Inr ts \<Rightarrow>
             Inr [(''dataset_size'', ds), (''threads_or_buffer'', th), (''table_size'', ts)])))
      | None \<Rightarrow> Inr [])"

section \<open>The filename parser of \<open>OLD PLOT/analyze_results.py\<close>\<close>

text \<open>The pattern string is \<^verbatim>\<open>_(\d+)_(\d+)_(\d+)\.txt$\<close>.\<close>

definition filename_re_old :: "item list" where
  "filename_re_old =
     [One (Is CHR ''_''), GOpen, Many1 Digit, GClose,
      One (Is CHR ''_''), GOpen, Many1 Digit, GClose,
      One (Is CHR ''_''), GOpen, Many1 Digit, GClose,
      One (Is CHR ''.'')] @ lit ''txt'' @ [Eol]"

definition parse_filename_old :: "string \<Rightarrow> exn + dict" where
  "parse_filename_old filename =
     (case search filename_re_old filename of
        Some g \<Rightarrow>
          (case py_int (g ! 0) of Inl e \<Rightarrow> Inl e | Inr ds \<Rightarrow>
          (case py_int (g ! 1) of Inl e \<Rightarrow> Inl e | Inr th \<Rightarrow>
          (case py_int (g ! 2) of Inl e \<Rightarrow> Inl e | Inr ts \<Rightarrow>
             Inr [(''dataset_size'', ds), (''threads_or_buffer'', th), (''table_size'', ts)])))
      | None \<Rightarrow> Inr [])"

section \<open>The result file readers\<close>

text \<open>
  A file is a value of \<open>exn + string\<close>: the exception that opening it raises, or its
  text as it is read in text mode (an error that arises later, while the text is read, is
  not modelled). A reader returns its dictionary and the exception its \<open>except\<close> clause
  caught, if any: for that exception it prints the line \<open>Error reading ...\<close>.
\<close>

subsection \<open>\<open>new_analyze_results.py\<close>\<close>

text \<open>
  The pattern strings are the raw strings \<^verbatim>\<open>ExecutionTime: (\\d+) ms\<close> and
  \<^verbatim>\<open>NumberOfHandledCollision: (\\d+)\<close>: the group is a backslash followed by one or more
  letters \<open>d\<close>.
\<close>

definition exec_re :: "item list" where
  "exec_re = lit ''ExecutionTime: '' @
     [GOpen, One (Is backslash), Many1 (Is CHR ''d''), GClose] @ lit '' ms''"

definition coll_re :: "item list" where
  "coll_re = lit ''NumberOfHandledCollision: '' @
     [GOpen, One (Is backslash), Many1 (Is CHR ''d''), GClose]"

text \<open>\<open>sum(int(t) for t in ts)\<close>: the first \<open>int\<close> that raises ends the sum.\<close>

fun sum_ints :: "string list \<Rightarrow> exn + int" where
  "sum_ints [] = Inr 0"
| "sum_ints (t # ts) =
     (case py_int t of Inl e \<Rightarrow> Inl e | Inr n \<Rightarrow>
     (case sum_ints ts of Inl e \<Rightarrow> Inl e | Inr m \<Rightarrow> Inr (n + m)))"

definition read_result_file :: "exn + string \<Rightarrow> dict \<times> exn option" where
  "read_result_file file =
     (case file of
        Inl e \<Rightarrow> ([], Some e)
      | Inr content \<Rightarrow>
          (let exec_times = findall exec_re content;
               collisions = findall coll_re content
           in case (if exec_times \<noteq> []
                    then (case sum_ints exec_times of Inl e \<Rightarrow> Inl e
                          | Inr n \<Rightarrow> Inr [(''ExecutionTime_ms'', n)])
                    else Inr [])
              of Inl e \<Rightarrow> ([], Some e)
               | Inr data \<Rightarrow>
                   (if collisions \<noteq> []
                    then (case sum_ints collisions of Inl e \<Rightarrow> (data, Some e)
                          | Inr n \<Rightarrow>
                              (AList.update ''NumberOfHandledCollision'' n data, None))
                    else (data, None))))"

subsection \<open>\<open>OLD PLOT/analyze_results.py\<close>\<close>

text \<open>Iterating over a text file gives its lines, each with the newline that ends it.\<close>

fun py_lines :: "string \<Rightarrow> string list" where
  "py_lines [] = []"
| "py_lines (c # s) =
     (if c = CHR 0x0A then [c] # py_lines s
      else (case py_lines s of [] \<Rightarrow> [[c]] | l # ls \<Rightarrow> (c # l) # ls))"

text \<open>\<open>s.split(c)\<close> for a single character \<open>c\<close>.\<close>

fun split_on :: "char \<Rightarrow> string \<Rightarrow> string list" where
  "split_on c [] = [[]]"
| "split_on c (x # xs) =
     (if x = c then [] # split_on c xs
      else (case split_on c xs of [] \<Rightarrow> [[x]] | l # ls \<Rightarrow> (x # l) # ls))"

definition index1 :: "string list \<Rightarrow> exn + string" where
  "index1 xs = (if 1 < length xs then Inr (xs ! 1) else Inl IndexError)"

text \<open>
  \<open>str.strip\<close>: of the code points up to 255, 9 to 13, 28 to 32, 0x85 and 0xA0 are white
  space.
\<close>

definition str_space :: "char \<Rightarrow> bool" where
  "str_space c \<longleftrightarrow> c \<in> set [CHR 0x09, CHR 0x0A, CHR 0x0B, CHR 0x0C, CHR 0x0D, CHR 0x1C,
     CHR 0x1D, CHR 0x1E, CHR 0x1F, CHR 0x20, CHR 0x85, CHR 0xA0]"

definition strip :: "string \<Rightarrow> string" where
  "strip s = rev (dropWhile str_space (rev (dropWhile str_space s)))"

text \<open>\<open>s.replace("ms", "")\<close>.\<close>

fun remove_ms :: "string \<Rightarrow> string" where
  "remove_ms (a # b # s) =
     (if a = CHR ''m'' \<and> b = CHR ''s'' then remove_ms s else a # remove_ms (b # s))"
| "remove_ms s = s"

fun scan_lines :: "string list \<Rightarrow> dict \<Rightarrow> dict \<times> exn option" where
  "scan_lines [] data = (data, None)"
| "scan_lines (line # ls) data =
     (if sublist ''ExecutionTime:'' line then
        (case index1 (split_on CHR '':'' line) of Inl e \<Rightarrow> (data, Some e) | Inr t \<Rightarrow>
        (case py_int (remove_ms (strip t)) of Inl e \<Rightarrow> (data, Some e) | Inr n \<Rightarrow>
           scan_lines ls (AList.update ''ExecutionTime_ms'' n data)))
      else if sublist ''NumberOfHandledCollision:'' line then
        (case index1 (split_on CHR '':'' line) of Inl e \<Rightarrow> (data, Some e) | Inr t \<Rightarrow>
        (case py_int (strip t) of Inl e \<Rightarrow> (data, Some e) | Inr n \<Rightarrow>
           scan_lines ls (AList.update ''NumberOfHandledCollision'' n data)))
      else scan_lines ls data)"

definition read_result_file_old :: "exn + string \<Rightarrow> dict \<times> exn option" where
  "read_result_file_old file =
     (case file of
        Inl e \<Rightarrow> ([], Some e)
      | Inr content \<Rightarrow> scan_lines (py_lines content) [])"

section \<open>The batch run\<close>

subsection \<open>The directories\<close>

text \<open>
  A path is absent, a regular file, or a directory with the names of its entries.
  The world of a run is the plots directory, the results directory (its names in the
  order \<open>os.listdir\<close> gives them) and, for each name in the results directory, what
  opening and reading that file gives.
\<close>

datatype node = Absent | RegularFile | Dir "string list"

record world =
  plots :: node
  results :: node
  opened :: "string \<Rightarrow> exn + string"

text \<open>
  \<open>os.path.exists\<close>, \<open>os.path.isdir\<close>, \<open>os.listdir\<close>, \<open>shutil.rmtree\<close> and
  \<open>os.makedirs(path, exist_ok=True)\<close>.
\<close>

fun path_exists :: "node \<Rightarrow> bool" where
  "path_exists Absent = False"
| "path_exists n = True"

fun isdir :: "node \<Rightarrow> bool" where
  "isdir (Dir es) = True"
| "isdir n = False"

fun listdir :: "node \<Rightarrow> exn + string list" where
  "listdir (Dir es) = Inr es"
| "listdir RegularFile = Inl NotADirectoryError"
| "listdir Absent = Inl OSError"

fun rmtree :: "node \<Rightarrow> exn + node" where
  "rmtree (Dir es) = Inr Absent"
| "rmtree RegularFile = Inl NotADirectoryError"
| "rmtree Absent = Inl OSError"

fun makedirs :: "node \<Rightarrow> exn + node" where
  "makedirs Absent = Inr (Dir [])"
| "makedirs (Dir es) = Inr (Dir es)"
| "makedirs RegularFile = Inl FileExistsError"

text \<open>
  The first statements of \<open>main\<close> in both pandas scripts:
  \<^verbatim>\<open>if os.path.exists(plots_dir): shutil.rmtree(plots_dir)\<close>, then
  \<^verbatim>\<open>os.makedirs(plots_dir, exist_ok=True)\<close>.
\<close>

definition reset_plots :: "node \<Rightarrow> exn + node" where
  "reset_plots n =
     (case (if path_exists n then rmtree n else Inr n) of
        Inl e \<Rightarrow> Inl e
      | Inr n' \<Rightarrow> makedirs n')"

text \<open>\<open>plot.py\<close> starts with \<^verbatim>\<open>os.makedirs(PLOTS_DIR, exist_ok=True)\<close> alone.\<close>

definition plot_py_setup :: "node \<Rightarrow> exn + node" where
  "plot_py_setup n = makedirs n"

subsection \<open>Collecting the records\<close>

text \<open>
  A record of \<open>all_data\<close> is the dictionary
  \<^verbatim>\<open>{**file_params, **file_content_data, "filename": filename}\<close>: its integer items and
  its filename.
\<close>

record row =
  nums :: dict
  fname :: string

definition dict_merge :: "dict \<Rightarrow> dict \<Rightarrow> dict" where
  "dict_merge a b = fold (\<lambda>(k, v). AList.update k v) b a"

fun gather :: "(string \<Rightarrow> exn + string) \<Rightarrow> string list \<Rightarrow> row list \<Rightarrow> exn + row list" where
  "gather f [] all_data = Inr all_data"
| "gather f (filename # names) all_data =
     (if prefix ''Results_HW2_MCC_'' filename \<and> suffix ''.txt'' filename then
        (case parse_filename filename of
           Inl e \<Rightarrow> Inl e
         | Inr file_params \<Rightarrow>
             (let file_content_data = fst (read_result_file (f filename)) in
              if file_params \<noteq> [] \<and> file_content_data \<noteq> []
              then gather f names (all_data @
                     [\<lparr>nums = dict_merge file_params file_content_data, fname = filename\<rparr>])
              else gather f names all_data))
      else gather f names all_data)"

fun gather_old :: "(string \<Rightarrow> exn + string) \<Rightarrow> string list \<Rightarrow> row list \<Rightarrow> exn + row list" where
  "gather_old f [] all_data = Inr all_data"
| "gather_old f (filename # names) all_data =
     (if prefix ''Results_MCC_'' filename \<and> suffix ''.txt'' filename then
        (case parse_filename_old filename of
           Inl e \<Rightarrow> Inl e
         | Inr file_params \<Rightarrow>
             (let file_content_data = fst (read_result_file_old (f filename)) in
              if file_content_data \<noteq> []
              then gather_old f names (all_data @
                     [\<lparr>nums = dict_merge file_params file_content_data, fname = filename\<rparr>])
              else gather_old f names all_data))
      else gather_old f names all_data)"

subsection \<open>The data frame and its cleaning\<close>

text \<open>
  \<open>pd.DataFrame(all_data)\<close> has one column for every key of some record and one row for
  every record; a key a record lacks is NaN in its row. The integer columns are listed in
  \<open>columns\<close>; the column \<open>filename\<close> is in every frame.
\<close>

record dataframe =
  columns :: "string list"
  rows :: "row list"

definition DataFrame :: "row list \<Rightarrow> dataframe" where
  "DataFrame all_data =
     \<lparr>columns = rev (remdups (rev (concat (map (\<lambda>r. map fst (nums r)) all_data)))),
      rows = all_data\<rparr>"

definition numeric_cols :: "string list" where
  "numeric_cols = [''dataset_size'', ''threads_or_buffer'', ''table_size'',
     ''ExecutionTime_ms'', ''NumberOfHandledCollision'']"

definition int_cols :: "string list" where
  "int_cols = [''dataset_size'', ''threads_or_buffer'', ''table_size'',
     ''NumberOfHandledCollision'']"

text \<open>
  \<^verbatim>\<open>for col in cols: df[col] = convert(df[col])\<close>, for \<open>pd.to_numeric\<close> with
  \<open>errors='coerce'\<close> and for \<open>astype(int)\<close>: \<open>df[col]\<close> raises \<open>KeyError\<close> for a column the frame
  does not have; the cells are integers or NaN and keep their values.
\<close>

fun convert_cols :: "string list \<Rightarrow> dataframe \<Rightarrow> exn + dataframe" where
  "convert_cols [] df = Inr df"
| "convert_cols (col # cols) df =
     (if col \<in> set (columns df) then convert_cols cols df else Inl (KeyError col))"

text \<open>\<open>df.dropna(subset=cols)\<close> keeps the rows that have a value in every column of \<open>cols\<close>.\<close>

definition dropna :: "string list \<Rightarrow> dataframe \<Rightarrow> dataframe" where
  "dropna cols df =
     df\<lparr>rows := filter (\<lambda>r. list_all (\<lambda>c. map_of (nums r) c \<noteq> None) cols) (rows df)\<rparr>"

definition clean :: "row list \<Rightarrow> exn + dataframe" where
  "clean all_data =
     (case convert_cols numeric_cols (DataFrame all_data) of
        Inl e \<Rightarrow> Inl e
      | Inr df \<Rightarrow> convert_cols int_cols (dropna numeric_cols df))"

subsection \<open>The charts\<close>

text \<open>The value of a column in a row of the cleaned frame.\<close>

definition cell :: "string \<Rightarrow> row \<Rightarrow> int" where
  "cell c r = the (map_of (nums r) c)"

text \<open>An integer in an f-string: its decimal digits.\<close>

function show_nat :: "nat \<Rightarrow> string" where
  "show_nat n =
     (if n < 10 then [''0123456789'' ! n]
      else show_nat (n div 10) @ [''0123456789'' ! (n mod 10)])"
  by pat_completeness auto
termination
  by (relation "measure id") auto

definition show_int :: "int \<Rightarrow> string" where
  "show_int i = (if i < 0 then CHR ''-'' # show_nat (nat (- i)) else show_nat (nat i))"

text \<open>
  The arrays that matplotlib computes with hold \<open>float64\<close> numbers. \<open>float64 x\<close> is the
  number with 53 significant binary digits that is nearest to \<open>x\<close>, the one with the even
  last digit when two are equally near; this is the result of converting an integer to
  \<open>float64\<close> and of one \<open>float64\<close> operation whose exact result is \<open>x\<close>. The range of the
  exponent is not modelled: there is no infinity, NaN or subnormal number here, so
  \<open>float64 x\<close> is the number of the code for \<open>x = 0\<close> and for magnitudes from \<open>2 powi - 1022\<close>
  up to \<open>2 ^ 1024\<close>.
\<close>

definition round_half_even :: "rat \<Rightarrow> int" where
  "round_half_even q =
     (let n = \<lfloor>q\<rfloor>; r = q - of_int n
      in if r < 1 / 2 then n else if 1 / 2 < r then n + 1
         else if even n then n else n + 1)"

text \<open>For \<open>0 < a\<close>, the exponent \<open>e\<close> with \<open>2 powi e \<le> a < 2 powi (e + 1)\<close>.\<close>

definition exponent :: "rat \<Rightarrow> int" where
  "exponent a =
     (case quotient_of a of (p, q) \<Rightarrow>
        (let e = bitlen p - bitlen q in if 2 powi e \<le> a then e else e - 1))"

definition float64 :: "rat \<Rightarrow> rat" where
  "float64 x =
     (if x = 0 then 0
      else (let ulp = 2 powi (exponent \<bar>x\<bar> - 52)
            in of_int (round_half_even (x / ulp)) * ulp))"

text \<open>
  \<open>plt.Normalize(vmin, vmax)\<close> applied to an array of values: the position of each value
  on the gradient, 0 for its low end and 1 for its high end. \<open>Normalize.__call__\<close> converts
  the values and the two limits to \<open>float64\<close> (\<open>process_value\<close>), fills the result with 0
  when the limits are equal, raises \<open>ValueError\<close> when \<open>vmin\<close> is the larger one, and
  otherwise subtracts \<open>vmin\<close> from the array and divides it by \<open>vmax - vmin\<close>, every
  operation in \<open>float64\<close>.
\<close>

definition normalize :: "rat \<Rightarrow> rat \<Rightarrow> rat list \<Rightarrow> exn + rat list" where
  "normalize vmin vmax values =
     (let result = map float64 values; vmin = float64 vmin; vmax = float64 vmax
      in if vmin = vmax then Inr (map (\<lambda>v. 0) result)
         else if vmin > vmax then Inl ValueError
         else Inr (map (\<lambda>v. float64 (float64 (v - vmin) / float64 (vmax - vmin))) result))"

text \<open>
  A chart that was saved: its file name in the plots directory, the heights of its bars
  and, where the bars are coloured on the gradient, their positions on it.
\<close>

record chart =
  path :: string
  bars :: "rat list"
  shades :: "rat list"

text \<open>
  \<open>pivot_table(index="threads_or_buffer", columns="table_size", values=v)\<close>: one cell for
  every pair of thread count and table size that occurs, holding the mean of \<open>v\<close> (the
  exact quotient; pandas rounds it to \<open>float64\<close>). (The
  cells of the other pairs are NaN; the bar plot draws them as bars of height 0, which are
  not listed here.)
\<close>

definition pivot_key :: "row \<Rightarrow> int \<times> int" where
  "pivot_key r = (cell ''threads_or_buffer'' r, cell ''table_size'' r)"

definition mean :: "int list \<Rightarrow> rat" where
  "mean xs = of_int (sum_list xs) / of_int (int (length xs))"

definition pivot_table :: "string \<Rightarrow> row list \<Rightarrow> ((int \<times> int) \<times> rat) list" where
  "pivot_table v sub =
     map (\<lambda>k. (k, mean (map (cell v) (filter (\<lambda>r. pivot_key r = k) sub))))
       (sort (remdups (map pivot_key sub)))"

definition unique_dataset_sizes :: "dataframe \<Rightarrow> int list" where
  "unique_dataset_sizes df = sort (remdups (map (cell ''dataset_size'') (rows df)))"

text \<open>\<open>drop_duplicates\<close> keeps the first of equal rows.\<close>

definition unique_combinations :: "dataframe \<Rightarrow> (int \<times> int) list" where
  "unique_combinations df =
     rev (remdups (rev (map (\<lambda>r. (cell ''dataset_size'' r, cell ''table_size'' r)) (rows df))))"

text \<open>
  The body of the first and of the third loop, for the column \<open>v\<close> and the file name
  prefix \<open>pre\<close>; \<open>None\<close> is \<open>continue\<close>.
\<close>

definition pivot_chart :: "string \<Rightarrow> string \<Rightarrow> dataframe \<Rightarrow> int \<Rightarrow> chart option" where
  "pivot_chart pre v df ds_size =
     (let subset_df = sort_key pivot_key
            (filter (\<lambda>r. cell ''dataset_size'' r = ds_size) (rows df))
      in if subset_df = [] then None
         else (let pivot = pivot_table v subset_df
               in if pivot = [] then None
                  else Some \<lparr>path = pre @ show_int ds_size @ ''.png'',
                              bars = map snd pivot, shades = []\<rparr>))"

text \<open>
  The body of the second loop. Rows with the same thread count keep their order here;
  \<open>sort_values\<close> with its default algorithm may order them differently.
\<close>

definition exectime_chart :: "dataframe \<Rightarrow> int \<times> int \<Rightarrow> exn + chart option" where
  "exectime_chart df c =
     (case c of (ds_size, ts_size) \<Rightarrow>
       (let subset_df = sort_key (cell ''threads_or_buffer'')
              (filter (\<lambda>r. cell ''dataset_size'' r = ds_size \<and> cell ''table_size'' r = ts_size)
                 (rows df))
        in if subset_df = [] then Inr None
           else (let times = map (\<lambda>r. of_int (cell ''ExecutionTime_ms'' r)) subset_df
                 in case normalize (Min (set times)) (Max (set times)) times of
                      Inl e \<Rightarrow> Inl e
                    | Inr colors \<Rightarrow>
                        Inr (Some \<lparr>path = ''exectime_dataset_'' @ show_int ds_size @ ''_tsize_''
                                      @ show_int ts_size @ ''.png'',
                                    bars = times, shades = colors\<rparr>))))"

text \<open>The loops: the charts saved, in order, and the exception that ended the run, if any.\<close>

definition pivot_loop :: "string \<Rightarrow> string \<Rightarrow> dataframe \<Rightarrow> chart list" where
  "pivot_loop pre v df = List.map_filter (pivot_chart pre v df) (unique_dataset_sizes df)"

fun exectime_loop :: "dataframe \<Rightarrow> (int \<times> int) list \<Rightarrow> chart list \<times> exn option" where
  "exectime_loop df [] = ([], None)"
| "exectime_loop df (c # cs) =
     (case exectime_chart df c of
        Inl e \<Rightarrow> ([], Some e)
      | Inr None \<Rightarrow> exectime_loop df cs
      | Inr (Some ch) \<Rightarrow> (case exectime_loop df cs of (chs, r) \<Rightarrow> (ch # chs, r)))"

definition charts :: "dataframe \<Rightarrow> chart list \<times> exn option" where
  "charts df =
     (let collision = pivot_loop ''collisions_dataset_'' ''NumberOfHandledCollision'' df
      in case exectime_loop df (unique_combinations df) of
           (exectime, Some e) \<Rightarrow> (collision @ exectime, Some e)
         | (exectime, None) \<Rightarrow>
             (collision @ exectime
                @ pivot_loop ''exectime_grouped_dataset_'' ''ExecutionTime_ms'' df, None))"

text \<open>\<open>plt.savefig\<close> creates the file or overwrites it.\<close>

definition savefig :: "string list \<Rightarrow> chart \<Rightarrow> string list" where
  "savefig es ch = (if path ch \<in> set es then es else es @ [path ch])"

fun save_all :: "node \<Rightarrow> chart list \<Rightarrow> node" where
  "save_all (Dir es) chs = Dir (fold (\<lambda>ch es. savefig es ch) chs es)"
| "save_all n chs = n"

subsection \<open>\<open>main\<close>\<close>

text \<open>
  How a run ends: after the charts, with one of the two messages of an early \<open>return\<close>, or
  with an exception that nothing catches.
\<close>

datatype outcome = Done | DirectoryNotFound | NoDataProcessed | Crashed exn

text \<open>
  The two pandas scripts have the same \<open>main\<close> up to the loop that collects the records,
  which is the parameter \<open>collect\<close>.
\<close>

definition pipeline :: "((string \<Rightarrow> exn + string) \<Rightarrow> string list \<Rightarrow> row list \<Rightarrow> exn + row list)
    \<Rightarrow> world \<Rightarrow> world \<times> outcome" where
  "pipeline collect w =
     (case reset_plots (plots w) of
        Inl e \<Rightarrow> (w, Crashed e)
      | Inr p \<Rightarrow>
          (let w1 = w\<lparr>plots := p\<rparr> in
           if \<not> isdir (results w1) then (w1, DirectoryNotFound)
           else
             (case listdir (results w1) of
                Inl e \<Rightarrow> (w1, Crashed e)
              | Inr names \<Rightarrow>
                  (case collect (opened w1) names [] of
                     Inl e \<Rightarrow> (w1, Crashed e)
                   | Inr all_data \<Rightarrow>
                       if all_data = [] then (w1, NoDataProcessed)
                       else
                         (case clean all_data of
                            Inl e \<Rightarrow> (w1, Crashed e)
                          | Inr df \<Rightarrow>
                              (case charts df of
                                 (chs, Some e) \<Rightarrow> (w1\<lparr>plots := save_all p chs\<rparr>, Crashed e)
                               | (chs, None) \<Rightarrow> (w1\<lparr>plots := save_all p chs\<rparr>, Done)))))))"

definition main :: "world \<Rightarrow> world \<times> outcome" where
  "main = pipeline gather"

definition main_old :: "world \<Rightarrow> world \<times> outcome" where
  "main_old = pipeline gather_old"

section \<open>The colours of \<open>draw_bar_plot\<close> in \<open>plot.py\<close>\<close>

text \<open>
  \<^verbatim>\<open>norm = plt.Normalize(vmin=0, vmax=max(values)); colors = cmap(norm(values))\<close>:
  the positions of the bars on the gradient. \<open>max\<close> of an empty list raises \<open>ValueError\<close>.
\<close>

definition draw_bar_plot :: "rat list \<Rightarrow> exn + rat list" where
  "draw_bar_plot values =
     (if values = [] then Inl ValueError else normalize 0 (Max (set values)) values)"

section \<open>Example inputs\<close>

text \<open>A complete record, and a record of a file whose name gave no parameters.\<close>

definition row_8 :: row where
  "row_8 = \<lparr>nums = [(''dataset_size'', 150000), (''threads_or_buffer'', 8),
       (''table_size'', 150000), (''ExecutionTime_ms'', 300),
       (''NumberOfHandledCollision'', 12)],
     fname = ''Results_MCC_150000_8_150000.txt''\<rparr>"

definition row_16 :: row where
  "row_16 = \<lparr>nums = [(''dataset_size'', 150000), (''threads_or_buffer'', 16),
       (''table_size'', 150000), (''ExecutionTime_ms'', 150),
       (''NumberOfHandledCollision'', 5)],
     fname = ''Results_MCC_150000_16_150000.txt''\<rparr>"

definition row_x :: row where
  "row_x = \<lparr>nums = [(''ExecutionTime_ms'', 150)], fname = ''Results_MCC_x.txt''\<rparr>"

text \<open>A world with charts of an earlier run and no results directory.\<close>

definition world_no_results :: world where
  "world_no_results = \<lparr>plots = Dir [''exectime_dataset_150000_tsize_150000.png''],
     results = Absent, opened = (\<lambda>n. Inl OSError)\<rparr>"

text \<open>A world with a chart of an earlier run and an empty results directory.\<close>

definition world_empty_results :: world where
  "world_empty_results = \<lparr>plots = Dir [''collisions_dataset_150000.png''],
     results = Dir [], opened = (\<lambda>n. Inl OSError)\<rparr>"

text \<open>A cleaned frame of two records of one group, and the chart of that group.\<close>

definition frame_two :: dataframe where
  "frame_two = \<lparr>columns = numeric_cols, rows = [row_8, row_16]\<rparr>"

definition chart_two :: chart where
  "chart_two = \<lparr>path = ''exectime_dataset_150000_tsize_150000.png'',
     bars = [300, 150], shades = [1, 0]\<rparr>"


text \<open>
  A results directory with one file whose name has no parameters and whose text has an
  execution time.
\<close>

definition world_x :: world where
  "world_x = \<lparr>plots = Absent, results = Dir [''Results_MCC_x.txt''],
     opened = (\<lambda>n. Inr ''ExecutionTime: 150 ms'')\<rparr>"

text \<open>
  A results directory with one empty file whose name has a backslash before \<open>.txt\<close> and
  letters where the sizes stand.
\<close>

definition name_bad_size :: string where
  "name_bad_size = ''Results_HW2_MCC_a_1_b_c'' @ [backslash] @ ''.txt''"

definition world_bad_size :: world where
  "world_bad_size = \<lparr>plots = Absent, results = Dir [name_bad_size],
     opened = (\<lambda>n. Inr [])\<rparr>"

text \<open>
  A plots directory with a file of an earlier run, and a results directory with a complete
  file and a file whose name has no parameters; the frame and the charts of that run.
\<close>

definition content_full :: string where
  "content_full = ''ExecutionTime: 300 ms'' @ [CHR 0x0A] @ ''NumberOfHandledCollision: 12''
     @ [CHR 0x0A]"

definition world_mixed :: world where
  "world_mixed = \<lparr>plots = Dir [''old.png''],
     results = Dir [''Results_MCC_150000_8_150000.txt'', ''Results_MCC_x.txt''],
     opened = (\<lambda>n. if n = ''Results_MCC_x.txt'' then Inr ''ExecutionTime: 150 ms''
                     else Inr content_full)\<rparr>"

definition frame_one :: dataframe where
  "frame_one = \<lparr>columns = numeric_cols, rows = [row_8]\<rparr>"

definition charts_one :: "chart list" where
  "charts_one =
     [\<lparr>path = ''collisions_dataset_150000.png'', bars = [12], shades = []\<rparr>,
      \<lparr>path = ''exectime_dataset_150000_tsize_150000.png'', bars = [300], shades = [0]\<rparr>,
      \<lparr>path = ''exectime_grouped_dataset_150000.png'', bars = [300], shades = []\<rparr>]"

section \<open>The filename parser on conventional names\<close>

text \<open>
  C1. The claim is that a name of the documented form, such as
  \<open>Results_HW2_MCC_030402_401106039_150K_8_150K_insert.txt\<close>, is parsed into its three
  numbers. The pattern of \<open>parse_filename\<close> asks for a backslash before the extension, so
  the parser returns the empty dictionary for this name.
\<close>

theorem parse_filename_conventional_name_empty:
  "parse_filename ''Results_HW2_MCC_030402_401106039_150K_8_150K_insert.txt'' = Inr []"
  by code_simp

section \<open>The reader on several markers\<close>

text \<open>
  C2. The claim is that three execution-time markers of 100, 200 and 50 ms give the total
  350. The pattern of \<open>read_result_file\<close> asks for a backslash and letters \<open>d\<close> where the
  number stands, so the reader of \<open>new_analyze_results.py\<close> finds no marker and returns the
  empty dictionary; the reader of \<open>OLD PLOT/analyze_results.py\<close> keeps the last marker, 50.
\<close>

theorem read_result_file_three_markers:
  "read_result_file (Inr (''ExecutionTime: 100 ms'' @ [CHR 0x0A] @ ''ExecutionTime: 200 ms''
       @ [CHR 0x0A] @ ''ExecutionTime: 50 ms'' @ [CHR 0x0A])) = ([], None)
   \<and> read_result_file_old (Inr (''ExecutionTime: 100 ms'' @ [CHR 0x0A]
       @ ''ExecutionTime: 200 ms'' @ [CHR 0x0A] @ ''ExecutionTime: 50 ms'' @ [CHR 0x0A]))
     = ([(''ExecutionTime_ms'', 50)], None)"
  by code_simp

section \<open>The cleaned data frame\<close>

lemma convert_cols_same: "convert_cols cols df = Inr df' \<Longrightarrow> df' = df"
  by (induction cols) (auto split: if_splits)

lemma clean_rows:
  assumes "clean all_data = Inr df"
  shows "rows df =
    filter (\<lambda>r. list_all (\<lambda>c. map_of (nums r) c \<noteq> None) numeric_cols) all_data"
proof -
  from assms obtain df1 where d1: "convert_cols numeric_cols (DataFrame all_data) = Inr df1"
    and d2: "convert_cols int_cols (dropna numeric_cols df1) = Inr df"
    by (auto simp: clean_def split: sum.splits)
  from d1 have "df1 = DataFrame all_data" by (rule convert_cols_same)
  moreover from d2 have "df = dropna numeric_cols df1" by (rule convert_cols_same)
  ultimately show ?thesis by (simp add: dropna_def DataFrame_def)
qed

text \<open>
  C7. When the cleaning step of \<open>main\<close> completes, every row of the frame has a number in
  each of the five columns \<open>dataset_size\<close>, \<open>threads_or_buffer\<close>, \<open>table_size\<close>,
  \<open>ExecutionTime_ms\<close> and \<open>NumberOfHandledCollision\<close>, and the frame has at most as many
  rows as there were records before the cleaning.
\<close>

theorem clean_rows_complete:
  assumes "clean all_data = Inr df"
  shows "(\<forall>r \<in> set (rows df). \<forall>c \<in> set numeric_cols. map_of (nums r) c \<noteq> None)
     \<and> length (rows df) \<le> length all_data"
  using clean_rows [OF assms] by (auto simp: list_all_iff)

theorem clean_rows_complete_witness:
  "clean [row_8, row_x] = Inr \<lparr>columns = numeric_cols, rows = [row_8]\<rparr>
   \<and> map (map_of (nums row_8)) numeric_cols = [Some 150000, Some 8, Some 150000, Some 300, Some 12]
   \<and> length (rows \<lparr>columns = numeric_cols, rows = [row_8]\<rparr>) \<le> length [row_8, row_x]"
proof -
  have c: "clean [row_8, row_x] = Inr \<lparr>columns = numeric_cols, rows = [row_8]\<rparr>"
    by (simp add: clean_def DataFrame_def numeric_cols_def int_cols_def dropna_def
        row_8_def row_x_def)
  from clean_rows_complete [OF c] show ?thesis
    using c by (simp add: numeric_cols_def row_8_def)
qed

section \<open>The plots directory at the start of a run\<close>

lemma reset_plots_dir: "n \<noteq> RegularFile \<Longrightarrow> reset_plots n = Inr (Dir [])"
  by (cases n) (simp_all add: reset_plots_def)

lemma pipeline_missing_results:
  "plots w \<noteq> RegularFile \<Longrightarrow> \<not> isdir (results w) \<Longrightarrow>
     pipeline collect w = (w\<lparr>plots := Dir []\<rparr>, DirectoryNotFound)"
  by (simp add: pipeline_def reset_plots_dir)

lemma pipeline_forgets_plots:
  "plots w \<noteq> RegularFile \<Longrightarrow> pipeline collect w = pipeline collect (w\<lparr>plots := Absent\<rparr>)"
  by (simp add: pipeline_def reset_plots_dir Let_def)

text \<open>
  C6, as amended. In the two pandas scripts the plots directory, when it is absent or a
  directory, is emptied before anything else: the first step leaves an empty directory,
  and the whole run ends as a run that found no plots directory at all, so nothing of an
  earlier run is left in it. (\<open>plot.py\<close> only creates the directory when it is missing.)
\<close>

theorem plots_dir_recreated:
  assumes "plots w \<noteq> RegularFile"
  shows "reset_plots (plots w) = Inr (Dir [])
     \<and> main w = main (w\<lparr>plots := Absent\<rparr>)
     \<and> main_old w = main_old (w\<lparr>plots := Absent\<rparr>)"
  using assms pipeline_forgets_plots [of w]
  by (simp add: main_def main_old_def reset_plots_dir)

theorem plots_dir_recreated_witness:
  "plots world_empty_results \<noteq> RegularFile
   \<and> reset_plots (plots world_empty_results) = Inr (Dir [])
   \<and> main world_empty_results = main (world_empty_results\<lparr>plots := Absent\<rparr>)
   \<and> main_old world_empty_results = main_old (world_empty_results\<lparr>plots := Absent\<rparr>)"
proof -
  have h: "plots world_empty_results \<noteq> RegularFile"
    by (simp add: world_empty_results_def)
  from plots_dir_recreated [OF h] h show ?thesis by simp
qed

text \<open>
  The claim C6 as it is written covers \<open>plot.py\<close> too, where it fails: a chart of an earlier
  run is still in the directory after the directory has been set up.
\<close>

theorem plot_py_keeps_old_files:
  "plot_py_setup (Dir [''exectime_150K_90K.png'']) = Inr (Dir [''exectime_150K_90K.png''])"
  by (simp add: plot_py_setup_def)

text \<open>
  C10. In both pandas scripts, a run that finds no results directory ends with the message
  \<open>Directory not found\<close> and leaves the plots directory empty: the charts of earlier runs
  are gone.
\<close>

theorem missing_results_dir_still_clears_plots:
  assumes "plots w \<noteq> RegularFile" and "\<not> isdir (results w)"
  shows "main w = (w\<lparr>plots := Dir []\<rparr>, DirectoryNotFound)
     \<and> main_old w = (w\<lparr>plots := Dir []\<rparr>, DirectoryNotFound)"
  using assms by (simp add: main_def main_old_def pipeline_missing_results)

theorem missing_results_dir_still_clears_plots_witness:
  "plots world_no_results = Dir [''exectime_dataset_150000_tsize_150000.png'']
   \<and> \<not> isdir (results world_no_results)
   \<and> main world_no_results = (world_no_results\<lparr>plots := Dir []\<rparr>, DirectoryNotFound)
   \<and> main_old world_no_results = (world_no_results\<lparr>plots := Dir []\<rparr>, DirectoryNotFound)"
proof -
  have h1: "plots world_no_results \<noteq> RegularFile"
    and h2: "\<not> isdir (results world_no_results)"
    by (simp_all add: world_no_results_def)
  from missing_results_dir_still_clears_plots [OF h1 h2] h2 show ?thesis
    by (simp add: world_no_results_def)
qed

section \<open>The colour gradient of the execution-time charts\<close>

subsection \<open>Numbers that \<open>float64\<close> holds exactly\<close>

text \<open>
  Rounding keeps 0 and every whole number up to \<open>2 ^ 53\<close> in magnitude, and only 0 is
  rounded to 0.
\<close>

lemma round_half_even_of_int [simp]: "round_half_even (of_int n) = n"
  by (simp add: round_half_even_def)

lemma exponent_le:
  assumes "0 < a"
  shows "2 powi (exponent a) \<le> a"
proof -
  obtain p q where pq: "quotient_of a = (p, q)" by (cases "quotient_of a")
  have q: "0 < q" using quotient_of_denom_pos [OF pq] .
  have a: "a = of_int p / of_int q" using quotient_of_div [OF pq] .
  from assms a q have p: "0 < p" by (simp add: zero_less_divide_iff)
  show ?thesis
  proof (cases "2 powi (bitlen p - bitlen q) \<le> a")
    case True
    then show ?thesis by (simp add: exponent_def pq)
  next
    case False
    have 1: "(2::rat) powi (bitlen p - 1) \<le> of_int p"
    proof -
      have "bitlen p - 1 \<ge> 0" using p bitlen_bounds [OF p] by (auto simp: bitlen_alt_def)
      then have "(2::rat) powi (bitlen p - 1) = of_int (2 ^ nat (bitlen p - 1))"
        by (simp add: power_int_def)
      also have "\<dots> \<le> of_int p"
      proof -
        have "2 ^ nat (bitlen p - 1) \<le> p" using bitlen_bounds [OF p] by simp
        then show ?thesis by (simp only: of_int_le_iff)
      qed
      finally show ?thesis .
    qed
    have 2: "of_int q \<le> (2::rat) powi (bitlen q)"
    proof -
      have "(2::rat) powi (bitlen q) = of_int (2 ^ nat (bitlen q))"
        using bitlen_nonneg [of q] by (simp add: power_int_def)
      moreover have "q \<le> 2 ^ nat (bitlen q)" using bitlen_bounds [OF q] by simp
      then have "of_int q \<le> (of_int (2 ^ nat (bitlen q)) :: rat)" by (simp only: of_int_le_iff)
      ultimately show ?thesis by simp
    qed
    have "(2::rat) powi (bitlen p - bitlen q - 1) = 2 powi (bitlen p - 1) / 2 powi (bitlen q)"
      by (simp add: power_int_diff)
    also have "\<dots> \<le> of_int p / of_int q"
      using 1 2 p q by (intro frac_le) auto
    also have "\<dots> = a" by (simp only: a)
    finally have "2 powi (bitlen p - bitlen q - 1) \<le> a" .
    moreover have "exponent a = bitlen p - bitlen q - 1"
      using False by (simp add: exponent_def pq)
    ultimately show ?thesis by simp
  qed
qed


lemma round_half_even_zero:
  assumes "round_half_even q = 0"
  shows "\<bar>q\<bar> \<le> 1 / 2"
proof -
  define n where "n = \<lfloor>q\<rfloor>"
  have b: "of_int n \<le> q" "q < of_int n + 1" unfolding n_def by linarith+
  from assms have "n = 0 \<and> q - of_int n \<le> 1 / 2 \<or> n = - 1 \<and> 1 / 2 \<le> q - of_int n"
    unfolding round_half_even_def Let_def n_def [symmetric]
    by (auto split: if_splits)
  with b show ?thesis by auto
qed

lemma float64_zero [simp]: "float64 0 = 0"
  by (simp add: float64_def)

lemma float64_eq_zero:
  assumes "float64 x = 0"
  shows "x = 0"
proof (rule ccontr)
  assume x: "x \<noteq> 0"
  define e where "e = exponent \<bar>x\<bar>"
  have le: "2 powi e \<le> \<bar>x\<bar>" unfolding e_def using x by (intro exponent_le) simp
  have ulp: "(0::rat) < 2 powi (e - 52)" by simp
  from assms x have "round_half_even (x / 2 powi (e - 52)) = 0"
    by (simp add: float64_def Let_def e_def)
  then have "\<bar>x / 2 powi (e - 52)\<bar> \<le> 1 / 2" by (rule round_half_even_zero)
  then have "\<bar>x\<bar> \<le> 1 / 2 * 2 powi (e - 52)"
    using ulp by (simp add: abs_divide pos_divide_le_eq)
  also have "\<dots> = 2 powi (e - 53)"
    by (simp add: power_int_diff)
  also have "\<dots> < 2 powi e" by (intro power_int_strict_increasing) auto
  finally show False using le by simp
qed

lemma float64_of_int:
  assumes "\<bar>n\<bar> \<le> 2 ^ 53"
  shows "float64 (of_int n) = of_int n"
proof (cases "n = 0")
  case True
  then show ?thesis by simp
next
  case False
  define e where "e = exponent \<bar>of_int n\<bar>"
  have "2 powi e \<le> \<bar>rat_of_int n\<bar>" unfolding e_def using False by (intro exponent_le) simp
  also have "\<dots> \<le> 2 ^ 53"
  proof -
    have "rat_of_int \<bar>n\<bar> \<le> rat_of_int (2 ^ 53)" using assms by (simp only: of_int_le_iff)
    then show ?thesis by simp
  qed
  finally have pe: "(2::rat) powi e \<le> 2 ^ 53" .
  have e: "e \<le> 53"
  proof (rule ccontr)
    assume "\<not> e \<le> 53"
    then have "(2::rat) powi 53 < 2 powi e" by (intro power_int_strict_increasing) auto
    with pe show False by simp
  qed
  have "\<exists>m. rat_of_int n / 2 powi (e - 52) = of_int m"
  proof (cases "e \<le> 52")
    case True
    then have "rat_of_int n / 2 powi (e - 52) = of_int (n * 2 ^ nat (52 - e))"
      by (simp add: power_int_def field_simps)
    then show ?thesis by blast
  next
    case False
    with e have e53: "e = 53" by simp
    with \<open>2 powi e \<le> \<bar>rat_of_int n\<bar>\<close> have "rat_of_int (2 ^ 53) \<le> rat_of_int \<bar>n\<bar>" by simp
    then have "2 ^ 53 \<le> \<bar>n\<bar>" by (simp only: of_int_le_iff)
    with assms have "\<bar>n\<bar> = 2 ^ 53" by simp
    then have "n = 2 ^ 53 \<or> n = - (2 ^ 53)" by (auto simp: abs_if split: if_splits)
    then have "rat_of_int n / 2 powi (e - 52) = of_int (2 ^ 52)
        \<or> rat_of_int n / 2 powi (e - 52) = of_int (- (2 ^ 52))"
      unfolding e53 by auto
    then show ?thesis by blast
  qed
  then obtain m where m: "rat_of_int n / 2 powi (e - 52) = of_int m" ..
  have "float64 (of_int n) = of_int m * 2 powi (e - 52)"
    using False by (simp add: float64_def Let_def e_def [symmetric] m)
  also have "\<dots> = rat_of_int n / 2 powi (e - 52) * 2 powi (e - 52)" by (simp only: m)
  also have "\<dots> = rat_of_int n" by simp
  finally show ?thesis .
qed

lemma float64_one [simp]: "float64 1 = 1"
  using float64_of_int [of 1] by simp

lemma float64_numeral: "numeral k \<le> (2 ^ 53 :: int) \<Longrightarrow> float64 (numeral k) = numeral k"
  using float64_of_int [of "numeral k"] by simp

subsection \<open>\<open>Normalize\<close>\<close>

lemma normalize_length: "normalize vmin vmax vs = Inr cs \<Longrightarrow> length cs = length vs"
  by (auto simp: normalize_def Let_def split: if_splits)

lemma normalize_equal: "normalize v v vs = Inr (map (\<lambda>v. 0) vs)"
  by (simp add: normalize_def Let_def comp_def)

lemma normalize_doubles:
  assumes "\<forall>v \<in> set vs. float64 v = v" and "float64 lo = lo" and "float64 hi = hi"
    and "lo < hi"
  shows "normalize lo hi vs
    = Inr (map (\<lambda>v. float64 (float64 (v - lo) / float64 (hi - lo))) vs)"
proof -
  from assms(1) have "map float64 vs = vs" by (induction vs) auto
  with assms(2-4) show ?thesis by (simp add: normalize_def Let_def)
qed

lemma shade_low: "float64 (float64 (lo - lo) / d) = 0"
  by simp

lemma shade_high: "lo < hi \<Longrightarrow> float64 (float64 (hi - lo) / float64 (hi - lo)) = 1"
proof -
  assume "lo < hi"
  then have "float64 (hi - lo) \<noteq> 0" using float64_eq_zero [of "hi - lo"] by auto
  then show ?thesis by simp
qed

lemma exectime_chart_group:
  assumes g: "g = filter (\<lambda>r. cell ''dataset_size'' r = ds \<and> cell ''table_size'' r = ts) (rows df)"
    and ne: "g \<noteq> []"
    and bound: "\<forall>r \<in> set g. \<bar>cell ''ExecutionTime_ms'' r\<bar> \<le> 2 ^ 53"
    and lo: "lo = Min (cell ''ExecutionTime_ms'' ` set g)"
    and hi: "hi = Max (cell ''ExecutionTime_ms'' ` set g)"
    and tms: "tms = map (\<lambda>r. of_int (cell ''ExecutionTime_ms'' r)) (sort_key (cell ''threads_or_buffer'') g)"
  shows "exectime_chart df (ds, ts) =
    Inr (Some \<lparr>path = ''exectime_dataset_'' @ show_int ds @ ''_tsize_'' @ show_int ts @ ''.png'',
      bars = tms,
      shades = (if lo = hi then map (\<lambda>v. 0) tms
        else map (\<lambda>v. float64 (float64 (v - of_int lo) / float64 (of_int hi - of_int lo))) tms)\<rparr>)"
proof -
  define sub where "sub = sort_key (cell ''threads_or_buffer'') g"
  have sub1: "set sub = set g" by (simp add: sub_def)
  then have sub2: "sub \<noteq> []" using ne by (metis set_empty)
  note sub = sub1 sub2
  have set_times: "set tms = rat_of_int ` (cell ''ExecutionTime_ms'' ` set g)"
    by (auto simp: tms sub_def [symmetric] sub)
  have fin: "finite (cell ''ExecutionTime_ms'' ` set g)" "cell ''ExecutionTime_ms'' ` set g \<noteq> {}"
    using ne by auto
  have mono: "mono rat_of_int" by (simp add: mono_def)
  have mn: "Min (set tms) = of_int lo"
    unfolding set_times lo using mono_Min_commute [OF mono fin] by simp
  have mx: "Max (set tms) = of_int hi"
    unfolding set_times hi using mono_Max_commute [OF mono fin] by simp
  have lo_in: "lo \<in> cell ''ExecutionTime_ms'' ` set g" unfolding lo using fin by (intro Min_in)
  have hi_in: "hi \<in> cell ''ExecutionTime_ms'' ` set g" unfolding hi using fin by (intro Max_in)
  have lohi: "lo \<le> hi" unfolding lo using fin(1) hi_in by (rule Min_le)
  have d_lo: "float64 (of_int lo) = of_int lo" using lo_in bound by (intro float64_of_int) auto
  have d_hi: "float64 (of_int hi) = of_int hi" using hi_in bound by (intro float64_of_int) auto
  have d_all: "\<forall>v \<in> set tms. float64 v = v"
    unfolding set_times using bound by (auto intro: float64_of_int)
  have n: "normalize (Min (set tms)) (Max (set tms)) tms =
    Inr (if lo = hi then map (\<lambda>v. 0) tms
        else map (\<lambda>v. float64 (float64 (v - of_int lo) / float64 (of_int hi - of_int lo))) tms)"
  proof (cases "lo = hi")
    case True
    then show ?thesis unfolding mn mx by (simp add: normalize_equal)
  next
    case False
    with lohi have "rat_of_int lo < of_int hi" by simp
    from normalize_doubles [OF d_all d_lo d_hi this] False show ?thesis
      unfolding mn mx by simp
  qed
  have t: "map (\<lambda>r. rat_of_int (cell ''ExecutionTime_ms'' r)) sub = tms"
    by (simp add: tms sub_def)
  from sub(2) show ?thesis
    unfolding exectime_chart_def prod.case Let_def g [symmetric] sub_def [symmetric] t
    by (simp add: n)
qed

text \<open>
  C9, as amended. In the pandas scripts, take the rows \<open>g\<close> of the cleaned frame with
  dataset size \<open>ds\<close> and table size \<open>ts\<close>, with execution times of at most \<open>2 ^ 53\<close> ms in
  magnitude, and let \<open>lo\<close> and \<open>hi\<close> be the smallest and the largest execution time among
  them. When there is such a row, the second loop saves a chart for the pair: its bars are
  the execution times of the rows of \<open>g\<close> in the order of their thread counts, every bar has
  a position on the gradient, a bar of height \<open>lo\<close> is at the low end (0), when \<open>lo < hi\<close> a
  bar of height \<open>hi\<close> is at the high end (1), and when \<open>lo = hi\<close> every bar is at the low
  end. \<open>draw_bar_plot\<close> of \<open>plot.py\<close> scales from 0 to the largest value instead: for
  \<open>float64\<close> values with a positive maximum, the bar of value \<open>v\<close> is at the \<open>float64\<close>
  quotient of \<open>v\<close> and the maximum.
\<close>

theorem exectime_chart_gradient:
  "(g = filter (\<lambda>r. cell ''dataset_size'' r = ds \<and> cell ''table_size'' r = ts) (rows df)
      \<and> g \<noteq> [] \<and> (\<forall>r \<in> set g. \<bar>cell ''ExecutionTime_ms'' r\<bar> \<le> 2 ^ 53)
      \<and> lo = Min (cell ''ExecutionTime_ms'' ` set g)
      \<and> hi = Max (cell ''ExecutionTime_ms'' ` set g) \<longrightarrow>
      (\<exists>ch. exectime_chart df (ds, ts) = Inr (Some ch)
         \<and> bars ch = map (\<lambda>r. of_int (cell ''ExecutionTime_ms'' r))
                        (sort_key (cell ''threads_or_buffer'') g)
         \<and> length (shades ch) = length (bars ch)
         \<and> (\<forall>i < length (bars ch). bars ch ! i = of_int lo \<longrightarrow> shades ch ! i = 0)
         \<and> (lo < hi \<longrightarrow>
              (\<forall>i < length (bars ch). bars ch ! i = of_int hi \<longrightarrow> shades ch ! i = 1))
         \<and> (lo = hi \<longrightarrow> (\<forall>i < length (bars ch). shades ch ! i = 0))))
   \<and> (draw_bar_plot vs = Inr cs \<and> 0 < Max (set vs) \<and> (\<forall>v \<in> set vs. float64 v = v) \<longrightarrow>
        length cs = length vs
      \<and> (\<forall>i < length vs. cs ! i = float64 (vs ! i / Max (set vs))))"
proof (intro conjI impI)
  assume a: "g = filter (\<lambda>r. cell ''dataset_size'' r = ds \<and> cell ''table_size'' r = ts) (rows df)
      \<and> g \<noteq> [] \<and> (\<forall>r \<in> set g. \<bar>cell ''ExecutionTime_ms'' r\<bar> \<le> 2 ^ 53)
      \<and> lo = Min (cell ''ExecutionTime_ms'' ` set g)
      \<and> hi = Max (cell ''ExecutionTime_ms'' ` set g)"
  define tms :: "rat list" where "tms = map (\<lambda>r. of_int (cell ''ExecutionTime_ms'' r))
    (sort_key (cell ''threads_or_buffer'') g)"
  define colors where "colors = (if lo = hi then map (\<lambda>v. 0) tms
        else map (\<lambda>v. float64 (float64 (v - of_int lo) / float64 (of_int hi - of_int lo))) tms)"
  define ch where "ch = \<lparr>path = ''exectime_dataset_'' @ show_int ds @ ''_tsize_'' @ show_int ts
    @ ''.png'', bars = tms, shades = colors\<rparr>"
  from a have a1: "g = filter (\<lambda>r. cell ''dataset_size'' r = ds \<and> cell ''table_size'' r = ts)
      (rows df)"
    and a2: "g \<noteq> []"
    and a3: "\<forall>r \<in> set g. \<bar>cell ''ExecutionTime_ms'' r\<bar> \<le> 2 ^ 53"
    and a4: "lo = Min (cell ''ExecutionTime_ms'' ` set g)"
    and a5: "hi = Max (cell ''ExecutionTime_ms'' ` set g)"
    by blast+
  have c: "exectime_chart df (ds, ts) = Inr (Some ch)"
    unfolding ch_def colors_def by (rule exectime_chart_group [OF a1 a2 a3 a4 a5 tms_def])
  have 1: "length colors = length tms" by (simp add: colors_def)
  have 2: "colors ! i = 0" if "i < length tms" "tms ! i = of_int lo" for i
    using that by (simp add: colors_def)
  have 3: "colors ! i = 1" if "lo < hi" "i < length tms" "tms ! i = of_int hi" for i
  proof -
    from that(1) have "rat_of_int lo < of_int hi" by simp
    from shade_high [OF this] that show ?thesis by (simp add: colors_def)
  qed
  have 4: "colors ! i = 0" if "lo = hi" "i < length tms" for i
    using that by (simp add: colors_def)
  show "\<exists>ch. exectime_chart df (ds, ts) = Inr (Some ch)
         \<and> bars ch = map (\<lambda>r. of_int (cell ''ExecutionTime_ms'' r))
                        (sort_key (cell ''threads_or_buffer'') g)
         \<and> length (shades ch) = length (bars ch)
         \<and> (\<forall>i < length (bars ch). bars ch ! i = of_int lo \<longrightarrow> shades ch ! i = 0)
         \<and> (lo < hi \<longrightarrow>
              (\<forall>i < length (bars ch). bars ch ! i = of_int hi \<longrightarrow> shades ch ! i = 1))
         \<and> (lo = hi \<longrightarrow> (\<forall>i < length (bars ch). shades ch ! i = 0))"
  proof (intro exI [of _ ch] conjI impI allI)
    show "exectime_chart df (ds, ts) = Inr (Some ch)" by (rule c)
    show "bars ch = map (\<lambda>r. of_int (cell ''ExecutionTime_ms'' r))
                        (sort_key (cell ''threads_or_buffer'') g)"
      by (simp add: ch_def tms_def)
    show "length (shades ch) = length (bars ch)" by (simp add: ch_def 1)
    show "shades ch ! i = 0" if "i < length (bars ch)" "bars ch ! i = of_int lo" for i
      using that 2 by (simp add: ch_def)
    show "shades ch ! i = 1" if "lo < hi" "i < length (bars ch)" "bars ch ! i = of_int hi" for i
      using that 3 by (simp add: ch_def)
    show "shades ch ! i = 0" if "lo = hi" "i < length (bars ch)" for i
      using that 4 by (simp add: ch_def)
  qed
next
  assume d: "draw_bar_plot vs = Inr cs \<and> 0 < Max (set vs) \<and> (\<forall>v \<in> set vs. float64 v = v)"
  then have d1: "draw_bar_plot vs = Inr cs" and d2: "0 < Max (set vs)"
    and d3: "\<forall>v \<in> set vs. float64 v = v"
    by blast+
  from d1 have ne: "vs \<noteq> []" by (auto simp: draw_bar_plot_def)
  then have "Max (set vs) \<in> set vs" by (intro Max_in) auto
  with d3 have mx: "float64 (Max (set vs)) = Max (set vs)" by blast
  have n1: "normalize 0 (Max (set vs)) vs
    = Inr (map (\<lambda>v. float64 (float64 (v - 0) / float64 (Max (set vs) - 0))) vs)"
    by (rule normalize_doubles [OF d3 float64_zero mx d2])
  have n2: "map (\<lambda>v. float64 (float64 (v - 0) / float64 (Max (set vs) - 0))) vs
    = map (\<lambda>v. float64 (v / Max (set vs))) vs"
    by (rule map_cong) (simp_all add: d3 mx)
  from d1 ne have "normalize 0 (Max (set vs)) vs = Inr cs" by (simp add: draw_bar_plot_def)
  then have cs: "cs = map (\<lambda>v. float64 (v / Max (set vs))) vs"
    unfolding n1 n2 by simp
  show "length cs = length vs" by (simp add: cs)
  show "\<forall>i < length vs. cs ! i = float64 (vs ! i / Max (set vs))" by (simp add: cs)
qed

lemma show_150000: "show_int 150000 = ''150000''"
  by (simp add: show_int_def)

lemma exectime_chart_frame_two:
  "exectime_chart frame_two (150000, 150000) = Inr (Some chart_two)"
  by (simp add: exectime_chart_def frame_two_def chart_two_def row_8_def row_16_def cell_def
      normalize_def show_150000 float64_numeral)

lemma float64_half: "float64 (1 / 2) = 1 / 2"
  by code_simp

lemma draw_bar_plot_100_200: "draw_bar_plot [100, 200] = Inr [1 / 2, 1]"
  by (simp add: draw_bar_plot_def normalize_def float64_numeral float64_half)

theorem exectime_chart_gradient_witness:
  "filter (\<lambda>r. cell ''dataset_size'' r = 150000 \<and> cell ''table_size'' r = 150000) (rows frame_two)
     = [row_8, row_16]
   \<and> \<bar>cell ''ExecutionTime_ms'' row_8\<bar> \<le> 2 ^ 53 \<and> \<bar>cell ''ExecutionTime_ms'' row_16\<bar> \<le> 2 ^ 53
   \<and> Min (cell ''ExecutionTime_ms'' ` set [row_8, row_16]) = 150
   \<and> Max (cell ''ExecutionTime_ms'' ` set [row_8, row_16]) = 300
   \<and> exectime_chart frame_two (150000, 150000) = Inr (Some chart_two)
   \<and> bars chart_two = [300, 150] \<and> shades chart_two = [1, 0]
   \<and> draw_bar_plot [100, 200] = Inr [1 / 2, 1]
   \<and> float64 100 = 100 \<and> float64 200 = 200
   \<and> [1 / 2, 1] ! 0 = float64 ([100, 200] ! 0 / Max (set [100, 200]))"
  using exectime_chart_gradient [of "[row_8, row_16]" 150000 150000 frame_two 150 300
      "[100, 200]" "[1 / 2, 1]"]
    exectime_chart_frame_two draw_bar_plot_100_200
  by (simp add: chart_two_def frame_two_def row_8_def row_16_def cell_def float64_numeral
      float64_half)

text \<open>
  The claim C9 as it is written fails in \<open>plot.py\<close>: of two bars of 100 and 200 ms the
  smaller one is in the middle of the gradient, not at its low end.
\<close>

theorem plot_py_gradient_starts_at_zero:
  "draw_bar_plot [100, 200] = Inr [1 / 2, 1]"
  by (simp add: draw_bar_plot_def normalize_def float64_numeral float64_half)

text \<open>
  Inside the gradient the positions are rounded: a value a third of the way up is at the
  \<open>float64\<close> nearest to a third. From \<open>2 ^ 53\<close> on, different whole numbers become the
  same \<open>float64\<close>: the limits \<open>2 ^ 53\<close> and \<open>2 ^ 53 + 1\<close> are equal after the conversion and
  both values are at the low end, which is why the times above are bounded.
\<close>

lemma normalize_third: "normalize 0 3 [1] = Inr [6004799503160661 / 18014398509481984]"
  by code_simp

lemma normalize_collapse: "normalize (2 ^ 53) (2 ^ 53 + 1) [2 ^ 53, 2 ^ 53 + 1] = Inr [0, 0]"
  by code_simp

section \<open>The readers when an exception is raised\<close>

lemma match_here_lit:
  "match_here (lit l @ p) s None gs =
     (if prefix l s then match_here p (drop (length l) s) None gs else None)"
proof (induction l arbitrary: s)
  case Nil
  then show ?case by (simp add: lit_def)
next
  case (Cons a l)
  have unf: "lit (a # l) @ p = One (Is a) # (lit l @ p)" by (simp add: lit_def)
  show ?case
  proof (cases s)
    case Nil
    then show ?thesis by (simp add: unf)
  next
    case (Cons x xs)
    then show ?thesis using Cons.IH [of xs] by (auto simp: unf)
  qed
qed

lemma match_here_no_close:
  "GClose \<notin> set q \<Longrightarrow> match_here q s cur gs = Some (gs', r) \<Longrightarrow> gs' = gs"
  by (induction q s cur gs rule: match_here.induct) (auto split: if_splits option.splits)

lemma match_here_many1_close:
  "GClose \<notin> set q \<Longrightarrow> match_here (Many1 c # GClose # q) s (Some g) gs = Some (gs', r)
    \<Longrightarrow> \<exists>g'. gs' = gs @ [g @ g']"
proof (induction s arbitrary: g)
  case Nil
  then show ?case by simp
next
  case (Cons x xs)
  from Cons.prems(2) have ok: "cls_ok c x" by (auto split: if_splits)
  show ?case
  proof (cases "match_here (Many1 c # GClose # q) xs (Some (g @ [x])) gs")
    case None
    with Cons.prems(2) ok have "match_here q xs None (gs @ [g @ [x]]) = Some (gs', r)"
      by simp
    from match_here_no_close [OF Cons.prems(1) this] show ?thesis by auto
  next
    case (Some a)
    with Cons.prems(2) ok have "match_here (Many1 c # GClose # q) xs (Some (g @ [x])) gs = Some (gs', r)"
      by simp
    from Cons.IH [OF Cons.prems(1) this] show ?thesis by auto
  qed
qed

lemma group_starts_with:
  assumes "match_here (lit a @ [GOpen, One (Is b), Many1 c, GClose] @ lit z) s None [] = Some (gs', r)"
  shows "\<exists>t. concat gs' = b # t"
proof -
  from assms have m: "match_here ([GOpen, One (Is b), Many1 c, GClose] @ lit z)
      (drop (length a) s) None [] = Some (gs', r)"
    by (simp add: match_here_lit split: if_splits)
  have nc: "GClose \<notin> set (lit z)" by (auto simp: lit_def)
  show ?thesis
  proof (cases "drop (length a) s")
    case Nil
    with m show ?thesis by simp
  next
    case (Cons x xs)
    with m have "match_here (Many1 c # GClose # lit z) xs (Some [b]) [] = Some (gs', r)"
      by (simp split: if_splits)
    from match_here_many1_close [OF nc this] show ?thesis by auto
  qed
qed

lemma findall_all_aux:
  "(\<forall>s gs' r. match_here p s None [] = Some (gs', r) \<longrightarrow> P (concat gs'))
    \<longrightarrow> (\<forall>t \<in> set (findall p s). P t)"
proof (induction p s rule: findall.induct)
  case (1 p)
  show ?case
  proof (cases "match_here p [] None []")
    case None
    then show ?thesis by simp
  next
    case (Some a)
    obtain gs' r where "a = (gs', r)" by (cases a)
    with Some show ?thesis by auto
  qed
next
  case (2 p x xs)
  show ?case
  proof (cases "match_here p (x # xs) None []")
    case None
    then show ?thesis using 2 by simp
  next
    case (Some a)
    then have m: "match_here p (x # xs) None [] = Some (fst a, snd a)" by simp
    show ?thesis
    proof (intro impI)
      assume h: "\<forall>s gs' r. match_here p s None [] = Some (gs', r) \<longrightarrow> P (concat gs')"
      with m have "P (concat (fst a))" by blast
      moreover have "\<forall>t \<in> set (if length (snd a) < length (x # xs)
          then findall p (snd a) else findall p xs). P t"
        using 2 Some h by (auto split: if_splits)
      ultimately show "\<forall>t \<in> set (findall p (x # xs)). P t"
        using Some by simp
    qed
  qed
qed

lemma findall_all:
  assumes "\<And>s gs' r. match_here p s None [] = Some (gs', r) \<Longrightarrow> P (concat gs')"
  shows "\<forall>t \<in> set (findall p s). P t"
  using findall_all_aux [of p P s] assms by blast

lemma py_int_backslash: "py_int (backslash # t) = Inl ValueError"
  by (simp add: py_int_def int_space_def backslash_def is_digit_def)

lemma sum_ints_fails:
  "ts \<noteq> [] \<Longrightarrow> \<forall>t \<in> set ts. py_int t = Inl ValueError \<Longrightarrow> sum_ints ts = Inl ValueError"
  by (cases ts) auto

lemma exec_times_fail: "\<forall>t \<in> set (findall exec_re s). py_int t = Inl ValueError"
proof (rule findall_all)
  fix s gs' r
  assume "match_here exec_re s None [] = Some (gs', r)"
  then have "\<exists>t. concat gs' = backslash # t"
    unfolding exec_re_def by (rule group_starts_with)
  then show "py_int (concat gs') = Inl ValueError" by (auto simp: py_int_backslash)
qed

lemma collisions_fail: "\<forall>t \<in> set (findall coll_re s). py_int t = Inl ValueError"
proof (rule findall_all)
  fix s gs' r
  assume "match_here coll_re s None [] = Some (gs', r)"
  then have "match_here (lit ''NumberOfHandledCollision: '' @
      [GOpen, One (Is backslash), Many1 (Is CHR ''d''), GClose] @ lit []) s None [] = Some (gs', r)"
    by (simp add: coll_re_def lit_def)
  then have "\<exists>t. concat gs' = backslash # t" by (rule group_starts_with)
  then show "py_int (concat gs') = Inl ValueError" by (auto simp: py_int_backslash)
qed

lemma read_result_file_empty: "fst (read_result_file f) = []"
proof (cases f)
  case (Inl e)
  then show ?thesis by (simp add: read_result_file_def)
next
  case (Inr content)
  show ?thesis
  proof (cases "findall exec_re content = []")
    case True
    then show ?thesis
      using sum_ints_fails [OF _ collisions_fail, of content]
      by (simp add: read_result_file_def Inr Let_def)
  next
    case False
    then show ?thesis
      using sum_ints_fails [OF _ exec_times_fail, of content]
      by (simp add: read_result_file_def Inr Let_def)
  qed
qed







section \<open>Example runs\<close>

text \<open>The parsers, the readers and the collecting loops on the example inputs.\<close>

lemma parse_old_x: "parse_filename_old ''Results_MCC_x.txt'' = Inr []"
  by code_simp

lemma read_old_150:
  "read_result_file_old (Inr ''ExecutionTime: 150 ms'') = ([(''ExecutionTime_ms'', 150)], None)"
  by code_simp



lemma parse_old_8:
  "parse_filename_old ''Results_MCC_150000_8_150000.txt''
    = Inr [(''dataset_size'', 150000), (''threads_or_buffer'', 8), (''table_size'', 150000)]"
  by code_simp

lemma read_old_full:
  "read_result_file_old (Inr content_full)
     = ([(''ExecutionTime_ms'', 300), (''NumberOfHandledCollision'', 12)], None)"
  by code_simp

lemma names_mixed:
  "prefix ''Results_MCC_'' ''Results_MCC_x.txt'' \<and> suffix ''.txt'' ''Results_MCC_x.txt''
   \<and> prefix ''Results_MCC_'' ''Results_MCC_150000_8_150000.txt''
   \<and> suffix ''.txt'' ''Results_MCC_150000_8_150000.txt''"
  by code_simp

lemma merge_8:
  "dict_merge [(''dataset_size'', 150000), (''threads_or_buffer'', 8), (''table_size'', 150000)]
     [(''ExecutionTime_ms'', 300), (''NumberOfHandledCollision'', 12)] = nums row_8"
  by (simp add: dict_merge_def row_8_def)

lemma gather_old_mixed:
  "gather_old (opened world_mixed) [''Results_MCC_150000_8_150000.txt'', ''Results_MCC_x.txt''] []
     = Inr [row_8, row_x]"
proof -
  have o: "opened world_mixed ''Results_MCC_x.txt'' = Inr ''ExecutionTime: 150 ms''"
    "opened world_mixed ''Results_MCC_150000_8_150000.txt'' = Inr content_full"
    by (simp_all add: world_mixed_def)
  have r8: "\<lparr>nums = nums row_8, fname = ''Results_MCC_150000_8_150000.txt''\<rparr> = row_8"
    by (simp add: row_8_def)
  have rx: "\<lparr>nums = dict_merge [] [(''ExecutionTime_ms'', 150)], fname = ''Results_MCC_x.txt''\<rparr>
    = row_x"
    by (simp add: row_x_def dict_merge_def)
  show ?thesis
    using names_mixed
    by (simp add: o parse_old_8 parse_old_x read_old_full read_old_150 merge_8 r8 rx)
qed

lemma clean_mixed: "clean [row_8, row_x] = Inr frame_one"
  by (simp add: clean_def DataFrame_def numeric_cols_def int_cols_def dropna_def
      row_8_def row_x_def frame_one_def)




section \<open>Runs that end with an exception\<close>

lemma name_x: "prefix ''Results_MCC_'' ''Results_MCC_x.txt'' \<and> suffix ''.txt'' ''Results_MCC_x.txt''"
  by code_simp

lemma gather_old_x:
  "gather_old (\<lambda>n. Inr ''ExecutionTime: 150 ms'') [''Results_MCC_x.txt''] [] = Inr [row_x]"
  using name_x by (simp add: parse_old_x read_old_150 row_x_def dict_merge_def)

lemma clean_x: "clean [row_x] = Inl (KeyError ''dataset_size'')"
  by (simp add: clean_def DataFrame_def numeric_cols_def row_x_def)

lemma main_old_x: "main_old world_x = (world_x\<lparr>plots := Dir []\<rparr>, Crashed (KeyError ''dataset_size''))"
  by (simp add: main_old_def pipeline_def reset_plots_def world_x_def gather_old_x clean_x
      del: gather_old.simps)

lemma parse_bad_size: "parse_filename name_bad_size = Inl ValueError"
  by code_simp

lemma name_bad: "prefix ''Results_HW2_MCC_'' name_bad_size \<and> suffix ''.txt'' name_bad_size"
  by code_simp

lemma gather_bad_size: "gather f [name_bad_size] [] = Inl ValueError"
  using name_bad by (simp add: parse_bad_size)

lemma main_bad_size: "main world_bad_size = (world_bad_size\<lparr>plots := Dir []\<rparr>, Crashed ValueError)"
  by (simp add: main_def pipeline_def reset_plots_def world_bad_size_def gather_bad_size
      del: gather.simps)

text \<open>
  C3. The claim fails in both pandas scripts: with a results directory that exists, a run
  can end with an exception that nothing catches. In \<open>OLD PLOT/analyze_results.py\<close> a file
  \<open>Results_MCC_x.txt\<close> that holds an execution time gives a record without the parameters
  of the name; when no record has them, the frame has no column \<open>dataset_size\<close> and
  \<^verbatim>\<open>df[col]\<close> raises \<open>KeyError\<close>. In \<open>new_analyze_results.py\<close> the name
  \<^verbatim>\<open>Results_HW2_MCC_a_1_b_c\.txt\<close> matches the pattern and \<open>parse_size\<close> raises \<open>ValueError\<close>
  on the token \<open>a\<close>, outside any \<open>try\<close>.
\<close>

theorem batch_run_crashes:
  "isdir (results world_x)
   \<and> main_old world_x = (world_x\<lparr>plots := Dir []\<rparr>, Crashed (KeyError ''dataset_size''))
   \<and> isdir (results world_bad_size)
   \<and> main world_bad_size = (world_bad_size\<lparr>plots := Dir []\<rparr>, Crashed ValueError)"
  by (simp add: main_old_x main_bad_size) (simp add: world_x_def world_bad_size_def)


section \<open>Files whose names do not match the pattern\<close>











section \<open>Running the scripts twice\<close>

lemma pipeline_plots_dir:
  "plots (fst (pipeline collect w)) = RegularFile \<longleftrightarrow> plots w = RegularFile"
proof (cases "plots w = RegularFile")
  case True
  then show ?thesis by (simp add: pipeline_def reset_plots_def)
next
  case False
  have s: "save_all (Dir []) chs \<noteq> RegularFile" for chs by simp
  from False show ?thesis
    by (auto simp: pipeline_def reset_plots_dir Let_def s split: sum.splits prod.splits option.splits)
qed

lemma pipeline_same_input:
  assumes "results w' = results w" and "opened w' = opened w"
    and "plots w \<noteq> RegularFile" and "plots w' \<noteq> RegularFile"
  shows "pipeline collect w' = pipeline collect w"
proof -
  have "w'\<lparr>plots := Absent\<rparr> = w\<lparr>plots := Absent\<rparr>" using assms(1,2) by simp
  then show ?thesis
    using pipeline_forgets_plots [OF assms(3), of collect]
      pipeline_forgets_plots [OF assms(4), of collect] by simp
qed

lemma pipeline_results:
  "results (fst (pipeline collect w)) = results w \<and> opened (fst (pipeline collect w)) = opened w"
  by (auto simp: pipeline_def Let_def split: sum.splits prod.splits option.splits)

lemma pipeline_twice: "pipeline collect (fst (pipeline collect w)) = pipeline collect w"
proof (cases "plots w = RegularFile")
  case True
  then have "fst (pipeline collect w) = w" by (simp add: pipeline_def reset_plots_def)
  then show ?thesis by simp
next
  case False
  then have "plots (fst (pipeline collect w)) \<noteq> RegularFile" by (simp add: pipeline_plots_dir)
  with False show ?thesis by (intro pipeline_same_input) (simp_all add: pipeline_results)
qed

lemma sort_key_empty: "sort_key f xs = [] \<longleftrightarrow> xs = []"
  by (metis set_empty set_sort)

lemma pivot_chart_some:
  assumes "ds \<in> cell ''dataset_size'' ` set (rows df)"
  shows "\<exists>ch. pivot_chart pre v df ds = Some ch \<and> path ch = pre @ show_int ds @ ''.png''"
proof -
  define sub where "sub = sort_key pivot_key (filter (\<lambda>r. cell ''dataset_size'' r = ds) (rows df))"
  from assms have "filter (\<lambda>r. cell ''dataset_size'' r = ds) (rows df) \<noteq> []"
    by (auto simp: filter_empty_conv)
  then have sub: "sub \<noteq> []" by (simp add: sub_def sort_key_empty)
  then have "remdups (map pivot_key sub) \<noteq> []" by (cases sub) auto
  then have "pivot_table v sub \<noteq> []" by (simp add: pivot_table_def sort_key_empty)
  with sub show ?thesis
    unfolding pivot_chart_def Let_def sub_def [symmetric] by simp
qed

lemma map_filter_paths:
  "\<forall>x \<in> set xs. \<exists>y. f x = Some y \<and> g y = h x \<Longrightarrow> map g (List.map_filter f xs) = map h xs"
  by (induction xs) (auto simp: map_filter_simps)

lemma pivot_loop_paths:
  "map path (pivot_loop pre v df)
     = map (\<lambda>ds. pre @ show_int ds @ ''.png'') (unique_dataset_sizes df)"
  unfolding pivot_loop_def
proof (rule map_filter_paths, rule ballI)
  fix ds assume "ds \<in> set (unique_dataset_sizes df)"
  then have "ds \<in> cell ''dataset_size'' ` set (rows df)" by (simp add: unique_dataset_sizes_def)
  from pivot_chart_some [OF this]
  show "\<exists>y. pivot_chart pre v df ds = Some y \<and> path y = pre @ show_int ds @ ''.png''" .
qed

lemma exectime_chart_path:
  assumes "exectime_chart df (ds, ts) = Inr (Some ch)"
  shows "path ch = ''exectime_dataset_'' @ show_int ds @ ''_tsize_'' @ show_int ts @ ''.png''"
  using assms unfolding exectime_chart_def
  by (auto simp: Let_def split: if_splits sum.splits)

lemma exectime_chart_none:
  assumes "exectime_chart df (ds, ts) = Inr None"
  shows "(ds, ts) \<notin> (\<lambda>r. (cell ''dataset_size'' r, cell ''table_size'' r)) ` set (rows df)"
proof -
  from assms have "sort_key (cell ''threads_or_buffer'')
    (filter (\<lambda>r. cell ''dataset_size'' r = ds \<and> cell ''table_size'' r = ts) (rows df)) = []"
    unfolding exectime_chart_def by (auto simp: Let_def split: if_splits sum.splits)
  then have "filter (\<lambda>r. cell ''dataset_size'' r = ds \<and> cell ''table_size'' r = ts) (rows df) = []"
    by (simp only: sort_key_empty)
  then show ?thesis by (auto simp: filter_empty_conv)
qed

lemma exectime_loop_paths:
  assumes "exectime_loop df cs = (chs, None)"
    and "set cs \<subseteq> (\<lambda>r. (cell ''dataset_size'' r, cell ''table_size'' r)) ` set (rows df)"
  shows "map path chs
    = map (\<lambda>(ds, ts). ''exectime_dataset_'' @ show_int ds @ ''_tsize_'' @ show_int ts @ ''.png'') cs"
  using assms
proof (induction cs arbitrary: chs)
  case Nil
  then show ?case by simp
next
  case (Cons c cs)
  obtain ds ts where c: "c = (ds, ts)" by (cases c)
  from Cons.prems(2) have in_c: "(ds, ts) \<in> (\<lambda>r. (cell ''dataset_size'' r, cell ''table_size'' r)) ` set (rows df)"
    and rest: "set cs \<subseteq> (\<lambda>r. (cell ''dataset_size'' r, cell ''table_size'' r)) ` set (rows df)"
    by (auto simp: c)
  show ?case
  proof (cases "exectime_chart df (ds, ts)")
    case (Inl e)
    with Cons.prems(1) show ?thesis by (simp add: c)
  next
    case (Inr res)
    show ?thesis
    proof (cases res)
      case None
      with Inr exectime_chart_none in_c show ?thesis by blast
    next
      case (Some ch)
      obtain chs' r where l: "exectime_loop df cs = (chs', r)" by (cases "exectime_loop df cs")
      with Cons.prems(1) Inr Some have "chs = ch # chs'" "r = None" by (simp_all add: c)
      with l Cons.IH [OF _ rest, of chs'] exectime_chart_path [of df ds ts ch] Inr Some
      show ?thesis by (simp add: c)
    qed
  qed
qed

lemma charts_paths:
  assumes "charts df = (chs, None)"
  shows "map path chs =
     map (\<lambda>ds. ''collisions_dataset_'' @ show_int ds @ ''.png'') (unique_dataset_sizes df)
     @ map (\<lambda>(ds, ts). ''exectime_dataset_'' @ show_int ds @ ''_tsize_'' @ show_int ts @ ''.png'')
         (unique_combinations df)
     @ map (\<lambda>ds. ''exectime_grouped_dataset_'' @ show_int ds @ ''.png'') (unique_dataset_sizes df)"
proof -
  obtain ex r where l: "exectime_loop df (unique_combinations df) = (ex, r)"
    by (cases "exectime_loop df (unique_combinations df)")
  with assms have r: "r = None"
    and chs: "chs = pivot_loop ''collisions_dataset_'' ''NumberOfHandledCollision'' df @ ex
       @ pivot_loop ''exectime_grouped_dataset_'' ''ExecutionTime_ms'' df"
    by (auto simp: charts_def Let_def split: option.splits)
  have "set (unique_combinations df)
    \<subseteq> (\<lambda>r. (cell ''dataset_size'' r, cell ''table_size'' r)) ` set (rows df)"
    by (simp add: unique_combinations_def)
  from exectime_loop_paths [OF l [unfolded r] this] show ?thesis
    by (simp add: chs pivot_loop_paths)
qed

lemma fold_savefig: "set (fold (\<lambda>ch es. savefig es ch) chs es) = set es \<union> path ` set chs"
  by (induction chs arbitrary: es) (auto simp: savefig_def)

lemma pipeline_done:
  assumes "pipeline collect w = (w', Done)"
  shows "\<exists>names all_data df chs es. listdir (results w) = Inr names
     \<and> collect (opened w) names [] = Inr all_data \<and> clean all_data = Inr df
     \<and> charts df = (chs, None) \<and> plots w' = Dir es \<and> set es = path ` set chs"
proof -
  from assms have "plots w \<noteq> RegularFile"
    by (auto simp: pipeline_def reset_plots_def)
  then have p: "reset_plots (plots w) = Inr (Dir [])" by (rule reset_plots_dir)
  from assms show ?thesis
    unfolding pipeline_def p
    by (auto simp: Let_def fold_savefig split: sum.splits if_splits prod.splits option.splits)
qed


lemma gather_empty: "gather f names acc = Inr all_data \<Longrightarrow> all_data = acc"
proof (induction names arbitrary: acc)
  case Nil
  then show ?case by simp
next
  case (Cons filename names)
  have "fst (read_result_file (f filename)) = []" by (rule read_result_file_empty)
  with Cons show ?case by (auto split: if_splits sum.splits)
qed

lemma main_never_done: "snd (main w) \<noteq> Done"
proof -
  have "all_data = []" if "gather (opened w) names [] = Inr all_data" for names all_data
    using gather_empty [OF that] .
  then show ?thesis
    unfolding main_def pipeline_def
    by (auto simp: Let_def split: sum.splits prod.splits option.splits)
qed

text \<open>
  C8. A second run that starts in the world the first run left ends with the same world,
  and so with the same files in the plots directory, and with the same outcome; more
  generally, two runs on the same results directory and the same files end alike whatever
  the plots directories held before (a path that is a regular file apart). The file names
  of the charts are computed from the keys of the cleaned frame alone: one name for every
  dataset size in the first and in the third loop, one for every pair of dataset size and
  table size in the second loop. When a run of \<open>OLD PLOT/analyze_results.py\<close> completes, the
  plots directory holds exactly the files of these charts. (By \<open>main_never_done\<close> a run of
  \<open>new_analyze_results.py\<close> never gets as far as the charts, because its reader returns no
  data.)
\<close>

theorem rerun_same_filenames:
  "main (fst (main w)) = main w \<and> main_old (fst (main_old w)) = main_old w
   \<and> (results w' = results w \<and> opened w' = opened w
        \<and> plots w \<noteq> RegularFile \<and> plots w' \<noteq> RegularFile \<longrightarrow>
        main w' = main w \<and> main_old w' = main_old w)
   \<and> (charts df = (chs, None) \<longrightarrow>
        map path chs =
          map (\<lambda>ds. ''collisions_dataset_'' @ show_int ds @ ''.png'') (unique_dataset_sizes df)
          @ map (\<lambda>(ds, ts). ''exectime_dataset_'' @ show_int ds @ ''_tsize_'' @ show_int ts
                   @ ''.png'') (unique_combinations df)
          @ map (\<lambda>ds. ''exectime_grouped_dataset_'' @ show_int ds @ ''.png'')
              (unique_dataset_sizes df))
   \<and> (main_old w = (w1, Done) \<longrightarrow>
        (\<exists>names all_data df1 chs1 es. listdir (results w) = Inr names
           \<and> gather_old (opened w) names [] = Inr all_data \<and> clean all_data = Inr df1
           \<and> charts df1 = (chs1, None) \<and> plots w1 = Dir es \<and> set es = path ` set chs1))"
proof (intro conjI impI)
  show "main (fst (main w)) = main w" unfolding main_def by (rule pipeline_twice)
  show "main_old (fst (main_old w)) = main_old w" unfolding main_old_def by (rule pipeline_twice)
next
  assume a: "results w' = results w \<and> opened w' = opened w
        \<and> plots w \<noteq> RegularFile \<and> plots w' \<noteq> RegularFile"
  then show "main w' = main w" unfolding main_def by (intro pipeline_same_input) simp_all
  from a show "main_old w' = main_old w" unfolding main_old_def
    by (intro pipeline_same_input) simp_all
next
  assume "charts df = (chs, None)"
  then show "map path chs =
          map (\<lambda>ds. ''collisions_dataset_'' @ show_int ds @ ''.png'') (unique_dataset_sizes df)
          @ map (\<lambda>(ds, ts). ''exectime_dataset_'' @ show_int ds @ ''_tsize_'' @ show_int ts
                   @ ''.png'') (unique_combinations df)
          @ map (\<lambda>ds. ''exectime_grouped_dataset_'' @ show_int ds @ ''.png'')
              (unique_dataset_sizes df)"
    by (rule charts_paths)
next
  assume "main_old w = (w1, Done)"
  then show "\<exists>names all_data df1 chs1 es. listdir (results w) = Inr names
           \<and> gather_old (opened w) names [] = Inr all_data \<and> clean all_data = Inr df1
           \<and> charts df1 = (chs1, None) \<and> plots w1 = Dir es \<and> set es = path ` set chs1"
    unfolding main_old_def by (rule pipeline_done)
qed

lemma charts_frame_one: "charts frame_one = (charts_one, None)"
  by (simp add: charts_def pivot_loop_def pivot_chart_def pivot_table_def pivot_key_def
      mean_def unique_dataset_sizes_def unique_combinations_def exectime_chart_def
      normalize_def cell_def row_8_def frame_one_def charts_one_def show_150000
      map_filter_simps)

lemma main_old_mixed:
  "main_old world_mixed =
     (world_mixed\<lparr>plots := Dir [''collisions_dataset_150000.png'',
        ''exectime_dataset_150000_tsize_150000.png'', ''exectime_grouped_dataset_150000.png'']\<rparr>,
      Done)"
proof -
  have w: "plots world_mixed = Dir [''old.png'']"
    "results world_mixed = Dir [''Results_MCC_150000_8_150000.txt'', ''Results_MCC_x.txt'']"
    by (simp_all add: world_mixed_def)
  have r: "row_8 # [row_x] \<noteq> []" by simp
  show ?thesis
    by (simp add: main_old_def pipeline_def reset_plots_def w gather_old_mixed clean_mixed
        charts_frame_one charts_one_def savefig_def del: gather_old.simps)
qed

theorem rerun_same_filenames_witness:
  "main_old world_mixed =
     (world_mixed\<lparr>plots := Dir [''collisions_dataset_150000.png'',
        ''exectime_dataset_150000_tsize_150000.png'', ''exectime_grouped_dataset_150000.png'']\<rparr>,
      Done)
   \<and> main_old (fst (main_old world_mixed)) = main_old world_mixed
   \<and> main (fst (main world_mixed)) = main world_mixed
   \<and> results (world_mixed\<lparr>plots := Absent\<rparr>) = results world_mixed
   \<and> opened (world_mixed\<lparr>plots := Absent\<rparr>) = opened world_mixed
   \<and> plots world_mixed = Dir [''old.png'']
   \<and> main (world_mixed\<lparr>plots := Absent\<rparr>) = main world_mixed
   \<and> main_old (world_mixed\<lparr>plots := Absent\<rparr>) = main_old world_mixed
   \<and> charts frame_one = (charts_one, None)
   \<and> unique_dataset_sizes frame_one = [150000]
   \<and> unique_combinations frame_one = [(150000, 150000)]
   \<and> map path charts_one = [''collisions_dataset_'' @ show_int 150000 @ ''.png'',
        ''exectime_dataset_'' @ show_int 150000 @ ''_tsize_'' @ show_int 150000 @ ''.png'',
        ''exectime_grouped_dataset_'' @ show_int 150000 @ ''.png'']
   \<and> (\<exists>names all_data df1 chs1 es. listdir (results world_mixed) = Inr names
        \<and> gather_old (opened world_mixed) names [] = Inr all_data \<and> clean all_data = Inr df1
        \<and> charts df1 = (chs1, None)
        \<and> Dir [''collisions_dataset_150000.png'', ''exectime_dataset_150000_tsize_150000.png'',
             ''exectime_grouped_dataset_150000.png''] = Dir es
        \<and> set es = path ` set chs1)"
proof -
  have w: "plots world_mixed = Dir [''old.png'']" by (simp add: world_mixed_def)
  have u: "unique_dataset_sizes frame_one = [150000]"
    "unique_combinations frame_one = [(150000, 150000)]"
    by (simp_all add: unique_dataset_sizes_def unique_combinations_def frame_one_def row_8_def
        cell_def)
  from rerun_same_filenames [of world_mixed "world_mixed\<lparr>plots := Absent\<rparr>" frame_one charts_one
      "world_mixed\<lparr>plots := Dir [''collisions_dataset_150000.png'',
        ''exectime_dataset_150000_tsize_150000.png'', ''exectime_grouped_dataset_150000.png'']\<rparr>"]
    main_old_mixed charts_frame_one w u
  show ?thesis by simp
qed


end
